theory Spec2Isabelle
  imports Main
begin

section \<open>The S3 credentials endpoint of the auth service\<close>

text \<open>
  A shallow embedding of \<^verbatim>\<open>services/auth/src/aws.js\<close>: the declaration of the API
  method \<^verbatim>\<open>awsS3Credentials\<close> and its handler.

  JavaScript strings are modelled as \<^typ>\<open>string\<close> (a list of characters). The
  handler only compares strings, looks at the first character of one and searches for
  ASCII substrings, so nothing depends on the encoding of the other characters.
\<close>

subsection \<open>JSON values\<close>

text \<open>
  The JavaScript values the handler builds: strings, booleans, \<^verbatim>\<open>null\<close>, arrays and
  object literals. An object literal keeps its properties in the order they are written.
\<close>

datatype json =
    JNull
  | JBool bool
  | JString string
  | JArray "json list"
  | JObject "(string \<times> json) list"

text \<open>Reading the property \<open>k\<close> of an object and the element \<open>i\<close> of an array.\<close>

fun property :: "string \<Rightarrow> json \<Rightarrow> json option" where
  "property k (JObject kvs) = map_of kvs k"
| "property k _ = None"

fun element :: "nat \<Rightarrow> json \<Rightarrow> json option" where
  "element i (JArray vs) = (if i < length vs then Some (vs ! i) else None)"
| "element i _ = None"

fun keys :: "json \<Rightarrow> string list" where
  "keys (JObject kvs) = map fst kvs"
| "keys _ = []"

subsection \<open>\<^verbatim>\<open>JSON.stringify\<close>\<close>

definition hexDigit :: "nat \<Rightarrow> char" where
  "hexDigit n = ''0123456789abcdef'' ! (n mod 16)"

text \<open>
  \<^verbatim>\<open>QuoteJSONString\<close> of ECMA-262, one character at a time: the double quote and the
  backslash are escaped, the control characters below U+0020 are written with their
  short escapes or as \<^verbatim>\<open>\u00XX\<close>, every other character stands for itself.
\<close>

definition quoteChar :: "char \<Rightarrow> string" where
  "quoteChar c =
     (if c = CHR 0x22 then [CHR 0x5C, CHR 0x22]
      else if c = CHR 0x5C then [CHR 0x5C, CHR 0x5C]
      else if c = CHR 0x08 then [CHR 0x5C, CHR ''b'']
      else if c = CHR 0x0C then [CHR 0x5C, CHR ''f'']
      else if c = CHR 0x0A then [CHR 0x5C, CHR ''n'']
      else if c = CHR 0x0D then [CHR 0x5C, CHR ''r'']
      else if c = CHR 0x09 then [CHR 0x5C, CHR ''t'']
      else if (of_char c :: nat) < 0x20
        then [CHR 0x5C, CHR ''u'', CHR ''0'', CHR ''0'',
              hexDigit ((of_char c :: nat) div 16), hexDigit (of_char c :: nat)]
      else [c])"

definition QuoteJSONString :: "string \<Rightarrow> string" where
  "QuoteJSONString s = [CHR 0x22] @ concat (map quoteChar s) @ [CHR 0x22]"

fun join :: "string \<Rightarrow> string list \<Rightarrow> string" where
  "join sep [] = []"
| "join sep [x] = x"
| "join sep (x # y # ys) = x @ sep @ join sep (y # ys)"

fun JSON_stringify :: "json \<Rightarrow> string" where
  "JSON_stringify JNull = ''null''"
| "JSON_stringify (JBool b) = (if b then ''true'' else ''false'')"
| "JSON_stringify (JString s) = QuoteJSONString s"
| "JSON_stringify (JArray vs) = ''['' @ join '','' (map JSON_stringify vs) @ '']''"
| "JSON_stringify (JObject kvs) =
     ''{'' @ join '','' (map (\<lambda>kv. QuoteJSONString (fst kv) @ '':'' @ JSON_stringify (snd kv)) kvs)
       @ ''}''"

subsection \<open>\<^verbatim>\<open>String.prototype.replace\<close> with a string pattern\<close>

fun startsWith :: "string \<Rightarrow> string \<Rightarrow> bool" where
  "startsWith [] s = True"
| "startsWith (p # ps) [] = False"
| "startsWith (p # ps) (c # cs) = (p = c \<and> startsWith ps cs)"

text \<open>
  The first occurrence of \<open>pat\<close> in \<open>s\<close>, as the text before it and the text after it
  (\<^verbatim>\<open>indexOf\<close>); \<open>None\<close> when \<open>pat\<close> does not occur.
\<close>

fun splitFirst :: "string \<Rightarrow> string \<Rightarrow> (string \<times> string) option" where
  "splitFirst pat [] = (if pat = [] then Some ([], []) else None)"
| "splitFirst pat (c # cs) =
     (if startsWith pat (c # cs) then Some ([], drop (length pat) (c # cs))
      else map_option (\<lambda>ba. (c # fst ba, snd ba)) (splitFirst pat cs))"

text \<open>
  \<^verbatim>\<open>GetSubstitution\<close> of ECMA-262 for a string pattern (no captures): in the
  replacement text \<^verbatim>\<open>$$\<close> stands for a dollar sign, \<^verbatim>\<open>$&\<close> for the matched text,
  \<^verbatim>\<open>$`\<close> for the text before the match and \<^verbatim>\<open>$'\<close> for the text after it. A dollar
  sign followed by anything else (also by digits or \<^verbatim>\<open><\<close>, which need captures)
  stands for itself.
\<close>

fun GetSubstitution :: "string \<Rightarrow> string \<Rightarrow> string \<Rightarrow> string \<Rightarrow> string" where
  "GetSubstitution matched preceding following [] = []"
| "GetSubstitution matched preceding following [c] = [c]"
| "GetSubstitution matched preceding following (c # d # r) =
     (if c = CHR ''$'' \<and> d = CHR ''$'' then CHR ''$'' # GetSubstitution matched preceding following r
      else if c = CHR ''$'' \<and> d = CHR ''&'' then matched @ GetSubstitution matched preceding following r
      else if c = CHR ''$'' \<and> d = CHR 0x60 then preceding @ GetSubstitution matched preceding following r
      else if c = CHR ''$'' \<and> d = CHR 0x27 then following @ GetSubstitution matched preceding following r
      else c # GetSubstitution matched preceding following (d # r))"

text \<open>\<^verbatim>\<open>s.replace(searchString, replaceValue)\<close>: only the first occurrence is replaced.\<close>

definition replace :: "string \<Rightarrow> string \<Rightarrow> string \<Rightarrow> string" where
  "replace s searchString replaceValue =
     (case splitFirst searchString s of
        None \<Rightarrow> s
      | Some ba \<Rightarrow>
          fst ba @ GetSubstitution searchString (fst ba) (snd ba) replaceValue @ snd ba)"

subsection \<open>The handler\<close>

text \<open>
  The request as the handler reads it: the three path parameters of the route
  \<^verbatim>\<open>/aws/s3/:level/:bucket/:prefix(*)\<close> and the query parameter \<^verbatim>\<open>format\<close>
  (\<open>None\<close> when the query string has none).
\<close>

record request =
  params_level :: string
  params_bucket :: string
  params_prefix :: string
  query_format :: "string option"

text \<open>The argument of \<^verbatim>\<open>sts.getFederationToken\<close> and the credentials it resolves to.\<close>

record federation_token_request =
  Name :: string
  Policy :: string
  DurationSeconds :: nat

record 'd credentials =
  AccessKeyId :: string
  SecretAccessKey :: string
  SessionToken :: string
  Expiration :: 'd

text \<open>
  What the handler calls and does not define: \<^verbatim>\<open>req.authorize\<close> (\<open>Some e\<close> when it
  throws \<open>e\<close>), \<^verbatim>\<open>this.sts.getFederationToken(...).promise()\<close> (\<open>Inl e\<close> when the
  promise is rejected with \<open>e\<close>), the clock read by \<^verbatim>\<open>new Date()\<close>, and
  \<^verbatim>\<open>Date.prototype.toJSON\<close> (\<open>None\<close> is \<^verbatim>\<open>null\<close>, for an invalid date).
\<close>

record ('e, 'd) services =
  authorize :: "(string \<times> json) list \<Rightarrow> 'e option"
  getFederationToken :: "federation_token_request \<Rightarrow> 'e + 'd credentials"
  now :: 'd
  toJSON :: "'d \<Rightarrow> string option"

text \<open>The external calls a run of the handler makes, in order, with their arguments.\<close>

datatype call =
    Authorize "(string \<times> json) list"
  | GetFederationToken federation_token_request

text \<open>
  How a run ends: an exception of a service propagates, or the handler answers through
  \<^verbatim>\<open>res.reportError(code, message, details)\<close>, \<^verbatim>\<open>res.status(n).json(body)\<close> or
  \<^verbatim>\<open>res.reply(body)\<close>.
\<close>

datatype 'e outcome =
    Throws 'e
  | ReportError string string "(string \<times> json) list"
  | StatusJson nat json
  | Reply json

definition dateJSON :: "string option \<Rightarrow> json" where
  "dateJSON s = (case s of None \<Rightarrow> JNull | Some t \<Rightarrow> JString t)"

text \<open>Lines 116 to 124: the actions allowed on objects.\<close>

definition objectActions :: "string \<Rightarrow> string list" where
  "objectActions level =
     [''s3:GetObject'']
       @ (if level = ''read-write'' then [''s3:PutObject'', ''s3:DeleteObject''] else [])"

text \<open>Lines 129 to 170: the object that is passed to \<^verbatim>\<open>JSON.stringify\<close>.\<close>

definition policy :: "string list \<Rightarrow> string \<Rightarrow> string \<Rightarrow> json" where
  "policy actions bucket prefix =
     JObject [
       (''Version'', JString ''2012-10-17''),
       (''Statement'', JArray [
          JObject [
            (''Sid'', JString ''ReadWriteObjectsUnderPrefix''),
            (''Effect'', JString ''Allow''),
            (''Action'', JArray (map JString actions)),
            (''Resource'', JArray [
               JString (replace (replace ''arn:aws:s3:::{{bucket}}/{{prefix}}*''
                                   ''{{bucket}}'' bucket)
                          ''{{prefix}}'' prefix)])],
          JObject [
            (''Sid'', JString ''ListObjectsUnderPrefix''),
            (''Effect'', JString ''Allow''),
            (''Action'', JArray [JString ''s3:ListBucket'']),
            (''Resource'', JArray [
               JString (replace ''arn:aws:s3:::{{bucket}}'' ''{{bucket}}'' bucket)]),
            (''Condition'', JObject [
               (''StringLike'', JObject [
                  (''s3:prefix'', JArray [
                     JString (replace ''{{prefix}}*'' ''{{prefix}}'' prefix)])])])],
          JObject [
            (''Sid'', JString ''GetBucketLocation''),
            (''Effect'', JString ''Allow''),
            (''Action'', JArray [JString ''s3:GetBucketLocation'']),
            (''Resource'', JArray [
               JString (replace ''arn:aws:s3:::{{bucket}}'' ''{{bucket}}'' bucket)])]])]"

text \<open>Line 104: the object passed to \<^verbatim>\<open>req.authorize\<close>.\<close>

definition authorizeParams :: "string \<Rightarrow> string \<Rightarrow> string \<Rightarrow> (string \<times> json) list" where
  "authorizeParams level bucket prefix =
     [(''level'', JString level), (''bucket'', JString bucket), (''prefix'', JString prefix),
      (''levelIsReadOnly'', JBool (level = ''read-only''))]"

text \<open>Lines 127 to 172: the argument of \<^verbatim>\<open>getFederationToken\<close>.\<close>

definition federationTokenRequest :: "string \<Rightarrow> string \<Rightarrow> string \<Rightarrow> federation_token_request" where
  "federationTokenRequest level bucket prefix =
     \<lparr>Name = ''TemporaryS3ReadWriteCredentials'',
      Policy = JSON_stringify (policy (objectActions level) bucket prefix),
      DurationSeconds = 60 * 60\<rparr>"

text \<open>Line 109: \<^verbatim>\<open>prefix[0] === '/'\<close>; \<^verbatim>\<open>''[0]\<close> is \<^verbatim>\<open>undefined\<close>.\<close>

definition startsWithSlash :: "string \<Rightarrow> bool" where
  "startsWithSlash prefix = (case prefix of [] \<Rightarrow> False | c # _ \<Rightarrow> c = CHR ''/'')"

text \<open>
  Lines 91 to 196. The result is the list of external calls made, in order, and how
  the run ended.
\<close>

definition awsS3Credentials ::
    "('e, 'd) services \<Rightarrow> request \<Rightarrow> call list \<times> 'e outcome" where
  "awsS3Credentials srv req =
     (let level = params_level req;
          bucket = params_bucket req;
          prefix = params_prefix req
      in
        if level \<noteq> ''read-write'' \<and> level \<noteq> ''read-only'' then
          ([], ReportError ''InputError''
                 ''the 'level' URL parameter must be read-only or read-write; got {{levelGiven}}''
                 [(''levelGiven'', JString level)])
        else
          (case authorize srv (authorizeParams level bucket prefix) of
             Some e \<Rightarrow> ([Authorize (authorizeParams level bucket prefix)], Throws e)
           | None \<Rightarrow>
               if startsWithSlash prefix then
                 ([Authorize (authorizeParams level bucket prefix)],
                  ReportError ''InputError''
                    ''The `prefix` may not start with a slash `/`; got `{{prefix}}`''
                    [(''prefix'', JString prefix)])
               else
                 (case getFederationToken srv (federationTokenRequest level bucket prefix) of
                    Inl e \<Rightarrow>
                      ([Authorize (authorizeParams level bucket prefix),
                        GetFederationToken (federationTokenRequest level bucket prefix)],
                       Throws e)
                  | Inr iamReq \<Rightarrow>
                      ([Authorize (authorizeParams level bucket prefix),
                        GetFederationToken (federationTokenRequest level bucket prefix)],
                       if query_format req = Some ''iam-role-compat'' then
                         StatusJson 200 (JObject [
                           (''Code'', JString ''Success''),
                           (''Type'', JString ''AWS-HMAC''),
                           (''LastUpdated'', dateJSON (toJSON srv (now srv))),
                           (''AccessKeyId'', JString (AccessKeyId iamReq)),
                           (''SecretAccessKey'', JString (SecretAccessKey iamReq)),
                           (''Token'', JString (SessionToken iamReq)),
                           (''Expiration'', dateJSON (toJSON srv (Expiration iamReq)))])
                       else
                         Reply (JObject [
                           (''credentials'', JObject [
                              (''accessKeyId'', JString (AccessKeyId iamReq)),
                              (''secretAccessKey'', JString (SecretAccessKey iamReq)),
                              (''sessionToken'', JString (SessionToken iamReq))]),
                           (''expires'', dateJSON (toJSON srv (Expiration iamReq)))])))))"

subsection \<open>The declared scopes\<close>

text \<open>
  Lines 14 to 21: the \<^verbatim>\<open>scopes\<close> entry of the declaration, a scope expression template.
  \<^verbatim>\<open>{if: c, then: t, else: e}\<close> is \<open>IfThenElse c t e\<close>, \<^verbatim>\<open>{AnyOf: [...]}\<close> is
  \<open>AnyOf\<close>, a string is \<open>Scope\<close>.
\<close>

datatype scope_expression =
    Scope string
  | AnyOf "scope_expression list"
  | IfThenElse string scope_expression scope_expression

definition scopes :: scope_expression where
  "scopes =
     IfThenElse ''levelIsReadOnly''
       (AnyOf [Scope ''auth:aws-s3:read-only:<bucket>/<prefix>'',
               Scope ''auth:aws-s3:read-write:<bucket>/<prefix>''])
       (Scope ''auth:aws-s3:read-write:<bucket>/<prefix>'')"

text \<open>
  Modelled from the spec: the API library's rendering of a scope string, which is not
  part of \<^verbatim>\<open>aws.js\<close>. Each scope string embeds the parameters verbatim: a placeholder
  \<^verbatim>\<open><name>\<close> is replaced by the string parameter of that name, in one pass over the
  template (the text put in is not read again). The second argument is the name of the
  placeholder being read, \<open>None\<close> outside a placeholder; the result is \<open>None\<close> when a
  placeholder names no string parameter.
\<close>

fun render :: "(string \<times> json) list \<Rightarrow> string option \<Rightarrow> string \<Rightarrow> string option" where
  "render ps None [] = Some []"
| "render ps None (c # cs) =
     (if c = CHR ''<'' then render ps (Some []) cs
      else map_option ((#) c) (render ps None cs))"
| "render ps (Some n) [] = Some (CHR ''<'' # n)"
| "render ps (Some n) (c # cs) =
     (if c \<noteq> CHR ''>'' then render ps (Some (n @ [c])) cs
      else if n = [] then map_option ((@) ''<>'') (render ps None cs)
      else (case map_of ps n of
              Some (JString v) \<Rightarrow> map_option ((@) v) (render ps None cs)
            | _ \<Rightarrow> None))"

text \<open>
  Modelled from the spec: the API library's expansion of the declared template with the
  parameters given to \<^verbatim>\<open>req.authorize\<close>, which is not part of \<^verbatim>\<open>aws.js\<close>. The
  required scope expression is derived from the request: the \<^verbatim>\<open>then\<close> branch when the
  boolean parameter named by \<^verbatim>\<open>if\<close> is true, else the \<^verbatim>\<open>else\<close> branch.
\<close>

fun expandExpressionTemplate ::
    "(string \<times> json) list \<Rightarrow> scope_expression \<Rightarrow> scope_expression option" where
  "expandExpressionTemplate ps (Scope s) = map_option Scope (render ps None s)"
| "expandExpressionTemplate ps (AnyOf es) =
     map_option AnyOf (those (map (expandExpressionTemplate ps) es))"
| "expandExpressionTemplate ps (IfThenElse c t e) =
     (case map_of ps c of
        Some (JBool b) \<Rightarrow>
          if b then expandExpressionTemplate ps t else expandExpressionTemplate ps e
      | _ \<Rightarrow> None)"

text \<open>
  Modelled from the spec: the required scope expression the authorizer evaluates when
  the handler calls \<^verbatim>\<open>req.authorize(ps)\<close>, the declared template expanded with \<open>ps\<close>.
  The API library that does this is not part of \<^verbatim>\<open>aws.js\<close>.
\<close>

definition requiredScopes :: "(string \<times> json) list \<Rightarrow> scope_expression option" where
  "requiredScopes ps = expandExpressionTemplate ps scopes"

subsection \<open>The declared query parameter\<close>





subsection \<open>Reading a policy document\<close>

text \<open>The property \<open>k\<close> of the statement number \<open>i\<close> of a policy document.\<close>

definition statementProperty :: "nat \<Rightarrow> string \<Rightarrow> json \<Rightarrow> json option" where
  "statementProperty i k doc =
     Option.bind (Option.bind (property ''Statement'' doc) (element i)) (property k)"

subsection \<open>Example services and requests\<close>

text \<open>
  Services that authorize every caller and hand out fixed credentials, services that
  authorize no caller, and some requests.
\<close>

definition exampleCredentials :: "string credentials" where
  "exampleCredentials =
     \<lparr>AccessKeyId = ''ASIAEXAMPLE'', SecretAccessKey = ''secret'', SessionToken = ''token'',
      Expiration = ''2026-01-01T01:00:00.000Z''\<rparr>"

definition grantAll :: "(string, string) services" where
  "grantAll =
     \<lparr>authorize = (\<lambda>ps. None), getFederationToken = (\<lambda>r. Inr exampleCredentials),
      now = ''2026-01-01T00:00:00.000Z'', toJSON = Some\<rparr>"

definition denyAll :: "(string, string) services" where
  "denyAll =
     \<lparr>authorize = (\<lambda>ps. Some ''InsufficientScopes''),
      getFederationToken = (\<lambda>r. Inr exampleCredentials),
      now = ''2026-01-01T00:00:00.000Z'', toJSON = Some\<rparr>"

definition teamRequest :: "string \<Rightarrow> string option \<Rightarrow> request" where
  "teamRequest level format =
     \<lparr>params_level = level, params_bucket = ''mybucket'', params_prefix = ''team/'',
      query_format = format\<rparr>"

definition secretsRequest :: request where
  "secretsRequest =
     \<lparr>params_level = ''read-only'', params_bucket = ''mybucket'', params_prefix = ''/secrets'',
      query_format = None\<rparr>"

definition dottedRequest :: request where
  "dottedRequest =
     \<lparr>params_level = ''read-only'', params_bucket = ''my.bucket'', params_prefix = ''data/'',
      query_format = None\<rparr>"

text \<open>A prefix that is a dollar sign followed by an apostrophe.\<close>

definition dollarRequest :: request where
  "dollarRequest =
     \<lparr>params_level = ''read-only'', params_bucket = ''mybucket'',
      params_prefix = [CHR ''$'', CHR 0x27], query_format = None\<rparr>"

definition dollarBucketRequest :: request where
  "dollarBucketRequest =
     \<lparr>params_level = ''read-only'', params_bucket = ''a$$b'', params_prefix = [],
      query_format = None\<rparr>"

section \<open>Properties of the handler\<close>

subsection \<open>The runs of the handler\<close>

lemma run_invalid_level:
  assumes "params_level req \<noteq> ''read-write''" and "params_level req \<noteq> ''read-only''"
  shows "awsS3Credentials srv req =
    ([], ReportError ''InputError''
           ''the 'level' URL parameter must be read-only or read-write; got {{levelGiven}}''
           [(''levelGiven'', JString (params_level req))])"
  using assms by (simp add: awsS3Credentials_def Let_def)

lemma run_unauthorized:
  assumes "params_level req = ''read-write'' \<or> params_level req = ''read-only''"
    and "authorize srv
           (authorizeParams (params_level req) (params_bucket req) (params_prefix req)) = Some e"
  shows "awsS3Credentials srv req =
    ([Authorize (authorizeParams (params_level req) (params_bucket req) (params_prefix req))],
     Throws e)"
  using assms by (auto simp add: awsS3Credentials_def Let_def)

lemma run_slash:
  assumes "params_level req = ''read-write'' \<or> params_level req = ''read-only''"
    and "authorize srv
           (authorizeParams (params_level req) (params_bucket req) (params_prefix req)) = None"
    and "startsWithSlash (params_prefix req)"
  shows "awsS3Credentials srv req =
    ([Authorize (authorizeParams (params_level req) (params_bucket req) (params_prefix req))],
     ReportError ''InputError''
       ''The `prefix` may not start with a slash `/`; got `{{prefix}}`''
       [(''prefix'', JString (params_prefix req))])"
  using assms by (auto simp add: awsS3Credentials_def Let_def)

lemma run_exchange:
  assumes "params_level req = ''read-write'' \<or> params_level req = ''read-only''"
    and "authorize srv
           (authorizeParams (params_level req) (params_bucket req) (params_prefix req)) = None"
    and "\<not> startsWithSlash (params_prefix req)"
  shows "fst (awsS3Credentials srv req) =
    [Authorize (authorizeParams (params_level req) (params_bucket req) (params_prefix req)),
     GetFederationToken
       (federationTokenRequest (params_level req) (params_bucket req) (params_prefix req))]"
  using assms by (auto simp add: awsS3Credentials_def Let_def split: sum.splits)

lemma exchange_call:
  assumes "GetFederationToken r \<in> set (fst (awsS3Credentials srv req))"
  shows "r = federationTokenRequest (params_level req) (params_bucket req) (params_prefix req)
    \<and> (params_level req = ''read-write'' \<or> params_level req = ''read-only'')
    \<and> authorize srv
         (authorizeParams (params_level req) (params_bucket req) (params_prefix req)) = None
    \<and> \<not> startsWithSlash (params_prefix req)"
  using assms
  by (auto simp add: awsS3Credentials_def Let_def split: if_splits option.splits sum.splits)

lemma run_teamRequest:
  assumes "level = ''read-write'' \<or> level = ''read-only''"
  shows "fst (awsS3Credentials grantAll (teamRequest level format)) =
    [Authorize (authorizeParams level ''mybucket'' ''team/''),
     GetFederationToken (federationTokenRequest level ''mybucket'' ''team/'')]"
proof -
  have "\<not> startsWithSlash ''team/''"
    by (simp add: startsWithSlash_def)
  then show ?thesis
    using assms run_exchange [of "teamRequest level format" grantAll]
    by (simp add: teamRequest_def grantAll_def)
qed

subsection \<open>Rejected levels\<close>

text \<open>
  C7. A request whose level is neither \<^verbatim>\<open>read-only\<close> nor \<^verbatim>\<open>read-write\<close> is answered
  with an \<^verbatim>\<open>InputError\<close> whose details carry the level given, and the run makes no
  external call: the authorizer is not called and no policy is built or submitted.
\<close>

theorem invalid_level_rejected:
  assumes "params_level req \<noteq> ''read-only''" and "params_level req \<noteq> ''read-write''"
  shows "awsS3Credentials srv req =
    ([], ReportError ''InputError''
           ''the 'level' URL parameter must be read-only or read-write; got {{levelGiven}}''
           [(''levelGiven'', JString (params_level req))])"
  using assms by (simp add: run_invalid_level)

theorem invalid_level_rejected_witness:
  "awsS3Credentials grantAll (teamRequest ''delete'' None) =
    ([], ReportError ''InputError''
           ''the 'level' URL parameter must be read-only or read-write; got {{levelGiven}}''
           [(''levelGiven'', JString ''delete'')])"
  using invalid_level_rejected [of "teamRequest ''delete'' None" grantAll]
  by (simp add: teamRequest_def)

subsection \<open>The fixed duration\<close>

text \<open>
  C8. Every call of the credential exchange a run makes asks for a duration of 3600
  seconds, whatever the request is.
\<close>

theorem duration_fixed:
  assumes "GetFederationToken r \<in> set (fst (awsS3Credentials srv req))"
  shows "DurationSeconds r = 3600"
  using exchange_call [OF assms] by (simp add: federationTokenRequest_def)

theorem duration_fixed_witness:
  "GetFederationToken (federationTokenRequest ''read-only'' ''mybucket'' ''team/'')
     \<in> set (fst (awsS3Credentials grantAll (teamRequest ''read-only'' None)))
   \<and> DurationSeconds (federationTokenRequest ''read-only'' ''mybucket'' ''team/'') = 3600"
proof -
  have m: "GetFederationToken (federationTokenRequest ''read-only'' ''mybucket'' ''team/'')
     \<in> set (fst (awsS3Credentials grantAll (teamRequest ''read-only'' None)))"
    by (simp add: run_teamRequest)
  from duration_fixed [OF m] m show ?thesis by simp
qed

subsection \<open>The actions on objects\<close>

lemma authorize_call:
  assumes "Authorize ps \<in> set (fst (awsS3Credentials srv req))"
  shows "ps = authorizeParams (params_level req) (params_bucket req) (params_prefix req)
    \<and> (params_level req = ''read-write'' \<or> params_level req = ''read-only'')"
  using assms
  by (auto simp add: awsS3Credentials_def Let_def split: if_splits option.splits sum.splits)

lemma objectActions_cases:
  "objectActions ''read-only'' = [''s3:GetObject'']"
  "objectActions ''read-write'' = [''s3:GetObject'', ''s3:PutObject'', ''s3:DeleteObject'']"
  by (simp_all add: objectActions_def)

lemma statement_Action:
  "statementProperty 0 ''Action'' (policy acts bucket prefix) = Some (JArray (map JString acts))"
  by (simp add: statementProperty_def policy_def)

text \<open>
  C1. Whenever a run submits a policy to the credential exchange, the policy is the
  serialised document whose first statement (\<^verbatim>\<open>ReadWriteObjectsUnderPrefix\<close>) has as
  its actions exactly \<^verbatim>\<open>s3:GetObject\<close> for the level \<^verbatim>\<open>read-only\<close>, and exactly
  \<^verbatim>\<open>s3:GetObject\<close>, \<^verbatim>\<open>s3:PutObject\<close> and \<^verbatim>\<open>s3:DeleteObject\<close> for the level
  \<^verbatim>\<open>read-write\<close>; the level is one of the two, and \<^verbatim>\<open>s3:PutObjectAcl\<close> is not among
  the actions.
\<close>

theorem object_actions_exact:
  assumes "GetFederationToken r \<in> set (fst (awsS3Credentials srv req))"
  shows "Policy r =
      JSON_stringify
        (policy (objectActions (params_level req)) (params_bucket req) (params_prefix req))
    \<and> statementProperty 0 ''Action''
        (policy (objectActions (params_level req)) (params_bucket req) (params_prefix req)) =
      Some (JArray (map JString (objectActions (params_level req))))
    \<and> (params_level req = ''read-only'' \<or> params_level req = ''read-write'')
    \<and> (params_level req = ''read-only'' \<longrightarrow>
         objectActions (params_level req) = [''s3:GetObject''])
    \<and> (params_level req = ''read-write'' \<longrightarrow>
         objectActions (params_level req) =
           [''s3:GetObject'', ''s3:PutObject'', ''s3:DeleteObject''])
    \<and> ''s3:PutObjectAcl'' \<notin> set (objectActions (params_level req))"
proof -
  note c = exchange_call [OF assms]
  from c have "Policy r =
      JSON_stringify
        (policy (objectActions (params_level req)) (params_bucket req) (params_prefix req))"
    by (simp add: federationTokenRequest_def)
  moreover from c have "params_level req = ''read-only'' \<or> params_level req = ''read-write''"
    by blast
  moreover have "''s3:PutObjectAcl'' \<notin> set (objectActions (params_level req))"
    by (simp add: objectActions_def)
  ultimately show ?thesis
    by (simp add: statement_Action objectActions_cases)
qed

theorem object_actions_exact_witness:
  "GetFederationToken (federationTokenRequest ''read-write'' ''mybucket'' ''team/'')
     \<in> set (fst (awsS3Credentials grantAll (teamRequest ''read-write'' None)))
   \<and> statementProperty 0 ''Action'' (policy (objectActions ''read-write'') ''mybucket'' ''team/'') =
       Some (JArray [JString ''s3:GetObject'', JString ''s3:PutObject'', JString ''s3:DeleteObject''])
   \<and> objectActions ''read-write'' = [''s3:GetObject'', ''s3:PutObject'', ''s3:DeleteObject'']"
proof -
  have m: "GetFederationToken (federationTokenRequest ''read-write'' ''mybucket'' ''team/'')
     \<in> set (fst (awsS3Credentials grantAll (teamRequest ''read-write'' None)))"
    by (simp add: run_teamRequest)
  from object_actions_exact [OF m] m show ?thesis
    by (simp add: teamRequest_def objectActions_cases)
qed

subsection \<open>The required scopes\<close>

lemma render_read_only:
  "render (authorizeParams level bucket prefix) None ''auth:aws-s3:read-only:<bucket>/<prefix>''
     = Some (''auth:aws-s3:read-only:'' @ bucket @ ''/'' @ prefix)"
  by (simp add: authorizeParams_def)

lemma render_read_write:
  "render (authorizeParams level bucket prefix) None ''auth:aws-s3:read-write:<bucket>/<prefix>''
     = Some (''auth:aws-s3:read-write:'' @ bucket @ ''/'' @ prefix)"
  by (simp add: authorizeParams_def)

lemma levelIsReadOnly:
  "map_of (authorizeParams level bucket prefix) ''levelIsReadOnly'' =
     Some (JBool (level = ''read-only''))"
  by (simp add: authorizeParams_def)

lemma expand_scopes:
  "expandExpressionTemplate (authorizeParams level bucket prefix) scopes =
     Some (if level = ''read-only''
           then AnyOf [Scope (''auth:aws-s3:read-only:'' @ bucket @ ''/'' @ prefix),
                       Scope (''auth:aws-s3:read-write:'' @ bucket @ ''/'' @ prefix)]
           else Scope (''auth:aws-s3:read-write:'' @ bucket @ ''/'' @ prefix))"
  unfolding scopes_def
  by (simp only: expandExpressionTemplate.simps list.map render_read_only render_read_write
        levelIsReadOnly)
    simp

text \<open>
  C4. Whenever a run calls the authorizer, the level is \<^verbatim>\<open>read-only\<close> or
  \<^verbatim>\<open>read-write\<close> and the required scope expression for the parameters handed over is,
  for \<^verbatim>\<open>read-only\<close>, the alternative of the read-only scope and the read-write scope
  of the bucket and prefix, and for \<^verbatim>\<open>read-write\<close> the read-write scope alone; each
  scope string is the scope's name followed by the bucket, a slash and the prefix,
  unchanged.
\<close>

theorem required_scope_expression:
  assumes "Authorize ps \<in> set (fst (awsS3Credentials srv req))"
  shows "requiredScopes ps =
      Some (if params_level req = ''read-only''
            then AnyOf
              [Scope (''auth:aws-s3:read-only:'' @ params_bucket req @ ''/'' @ params_prefix req),
               Scope (''auth:aws-s3:read-write:'' @ params_bucket req @ ''/'' @ params_prefix req)]
            else Scope
              (''auth:aws-s3:read-write:'' @ params_bucket req @ ''/'' @ params_prefix req))
    \<and> (params_level req = ''read-only'' \<or> params_level req = ''read-write'')"
proof -
  note c = authorize_call [OF assms]
  then have ps: "ps = authorizeParams (params_level req) (params_bucket req) (params_prefix req)"
    by simp
  have "params_level req = ''read-only'' \<or> params_level req = ''read-write''"
    using c by blast
  then show ?thesis
    unfolding ps requiredScopes_def expand_scopes by simp
qed

theorem required_scope_expression_witness:
  "Authorize (authorizeParams ''read-only'' ''mybucket'' ''team/'')
     \<in> set (fst (awsS3Credentials grantAll (teamRequest ''read-only'' None)))
   \<and> requiredScopes (authorizeParams ''read-only'' ''mybucket'' ''team/'') =
       Some (AnyOf [Scope ''auth:aws-s3:read-only:mybucket/team/'',
                    Scope ''auth:aws-s3:read-write:mybucket/team/''])"
proof -
  have m: "Authorize (authorizeParams ''read-only'' ''mybucket'' ''team/'')
     \<in> set (fst (awsS3Credentials grantAll (teamRequest ''read-only'' None)))"
    by (simp add: run_teamRequest)
  from required_scope_expression [OF m] m show ?thesis
    by (simp add: teamRequest_def)
qed

subsection \<open>The order of validation, authorization and policy construction\<close>

lemma startsWithSlash_secrets: "startsWithSlash ''/secrets''"
  by (simp add: startsWithSlash_def)

text \<open>
  C3, as stated, fails: for the prefix \<^verbatim>\<open>/secrets\<close> the authorizer is called before the
  prefix is looked at. With an authorizer that accepts, the run calls it and then reports
  the \<^verbatim>\<open>InputError\<close>; with an authorizer that refuses, the run ends with the
  authorizer's error and no \<^verbatim>\<open>InputError\<close> is reported.
\<close>

theorem slash_prefix_counterexample:
  "awsS3Credentials grantAll secretsRequest =
     ([Authorize (authorizeParams ''read-only'' ''mybucket'' ''/secrets'')],
      ReportError ''InputError''
        ''The `prefix` may not start with a slash `/`; got `{{prefix}}`''
        [(''prefix'', JString ''/secrets'')])
   \<and> awsS3Credentials denyAll secretsRequest =
     ([Authorize (authorizeParams ''read-only'' ''mybucket'' ''/secrets'')],
      Throws ''InsufficientScopes'')"
  using run_slash [of secretsRequest grantAll] run_unauthorized [of secretsRequest denyAll]
  by (simp add: secretsRequest_def grantAll_def denyAll_def startsWithSlash_secrets)

text \<open>
  C3, amended. The external calls of a run are: none when the level is invalid; the one
  authorizer call alone when the authorizer refuses or the prefix begins with a slash;
  the authorizer call followed by the submission of the policy otherwise. So the single
  authorizer call comes after the validation of the level, before the validation of the
  prefix and before any policy is built. For a request with a valid level, the run ends
  with the authorizer's error when the authorizer refuses, whatever the prefix is, and
  with an \<^verbatim>\<open>InputError\<close> carrying the prefix when the authorizer accepts and the
  prefix begins with a slash.
\<close>

theorem authorizer_order:
  "fst (awsS3Credentials srv req) =
     (if params_level req \<noteq> ''read-write'' \<and> params_level req \<noteq> ''read-only'' then []
      else if authorize srv
                (authorizeParams (params_level req) (params_bucket req) (params_prefix req)) \<noteq> None
              \<or> startsWithSlash (params_prefix req)
        then [Authorize (authorizeParams (params_level req) (params_bucket req) (params_prefix req))]
      else [Authorize (authorizeParams (params_level req) (params_bucket req) (params_prefix req)),
            GetFederationToken
              (federationTokenRequest (params_level req) (params_bucket req) (params_prefix req))])
   \<and> ((params_level req = ''read-write'' \<or> params_level req = ''read-only'')
        \<and> startsWithSlash (params_prefix req)
        \<and> authorize srv
             (authorizeParams (params_level req) (params_bucket req) (params_prefix req)) = None
      \<longrightarrow> snd (awsS3Credentials srv req) =
            ReportError ''InputError''
              ''The `prefix` may not start with a slash `/`; got `{{prefix}}`''
              [(''prefix'', JString (params_prefix req))])
   \<and> (\<forall>e. (params_level req = ''read-write'' \<or> params_level req = ''read-only'')
        \<and> authorize srv
             (authorizeParams (params_level req) (params_bucket req) (params_prefix req)) = Some e
      \<longrightarrow> snd (awsS3Credentials srv req) = Throws e)"
proof (cases "params_level req = ''read-write'' \<or> params_level req = ''read-only''")
  case False
  then show ?thesis
    by (simp add: run_invalid_level)
next
  case level: True
  show ?thesis
  proof (cases "authorize srv
      (authorizeParams (params_level req) (params_bucket req) (params_prefix req))")
    case (Some e)
    with level show ?thesis
      using run_unauthorized [of req srv e] by auto
  next
    case None
    with level show ?thesis
      using run_slash [of req srv] run_exchange [of req srv] by auto
  qed
qed

theorem authorizer_order_witness:
  "fst (awsS3Credentials grantAll secretsRequest) =
     [Authorize (authorizeParams ''read-only'' ''mybucket'' ''/secrets'')]
   \<and> snd (awsS3Credentials grantAll secretsRequest) =
     ReportError ''InputError''
       ''The `prefix` may not start with a slash `/`; got `{{prefix}}`''
       [(''prefix'', JString ''/secrets'')]
   \<and> fst (awsS3Credentials denyAll secretsRequest) =
     [Authorize (authorizeParams ''read-only'' ''mybucket'' ''/secrets'')]
   \<and> snd (awsS3Credentials denyAll secretsRequest) = Throws ''InsufficientScopes''"
proof -
  have granted: "fst (awsS3Credentials grantAll secretsRequest) =
     [Authorize (authorizeParams ''read-only'' ''mybucket'' ''/secrets'')]
   \<and> snd (awsS3Credentials grantAll secretsRequest) =
     ReportError ''InputError''
       ''The `prefix` may not start with a slash `/`; got `{{prefix}}`''
       [(''prefix'', JString ''/secrets'')]"
    using authorizer_order [of grantAll secretsRequest]
    by (simp add: secretsRequest_def grantAll_def startsWithSlash_secrets)
  have refused: "fst (awsS3Credentials denyAll secretsRequest) =
     [Authorize (authorizeParams ''read-only'' ''mybucket'' ''/secrets'')]
   \<and> snd (awsS3Credentials denyAll secretsRequest) = Throws ''InsufficientScopes''"
    using authorizer_order [of denyAll secretsRequest]
    by (simp add: secretsRequest_def denyAll_def startsWithSlash_secrets)
  from granted refused show ?thesis
    by simp
qed

subsection \<open>The two response formats\<close>

text \<open>
  C5. When the request is valid and authorized and the exchange succeeds, the answer for
  the format \<^verbatim>\<open>iam-role-compat\<close> is sent with status 200 and its body has exactly the
  keys \<^verbatim>\<open>Code\<close>, \<^verbatim>\<open>Type\<close>, \<^verbatim>\<open>LastUpdated\<close>, \<^verbatim>\<open>AccessKeyId\<close>,
  \<^verbatim>\<open>SecretAccessKey\<close>, \<^verbatim>\<open>Token\<close> and \<^verbatim>\<open>Expiration\<close>, with \<^verbatim>\<open>Code\<close> equal to
  \<^verbatim>\<open>Success\<close> and \<^verbatim>\<open>Type\<close> equal to \<^verbatim>\<open>AWS-HMAC\<close>, and neither \<^verbatim>\<open>credentials\<close>
  nor \<^verbatim>\<open>expires\<close>. For any other format, or none, the reply has exactly the keys
  \<^verbatim>\<open>credentials\<close> (an object of \<^verbatim>\<open>accessKeyId\<close>, \<^verbatim>\<open>secretAccessKey\<close> and
  \<^verbatim>\<open>sessionToken\<close>) and \<^verbatim>\<open>expires\<close>, and neither \<^verbatim>\<open>Code\<close> nor \<^verbatim>\<open>Type\<close>.
\<close>

theorem response_shapes:
  assumes "params_level req = ''read-write'' \<or> params_level req = ''read-only''"
    and "authorize srv
           (authorizeParams (params_level req) (params_bucket req) (params_prefix req)) = None"
    and "\<not> startsWithSlash (params_prefix req)"
    and "getFederationToken srv
           (federationTokenRequest (params_level req) (params_bucket req) (params_prefix req)) =
         Inr iamReq"
  shows "(query_format req = Some ''iam-role-compat'' \<longrightarrow>
      (\<exists>body. snd (awsS3Credentials srv req) = StatusJson 200 body
        \<and> keys body = [''Code'', ''Type'', ''LastUpdated'', ''AccessKeyId'', ''SecretAccessKey'',
                        ''Token'', ''Expiration'']
        \<and> property ''Code'' body = Some (JString ''Success'')
        \<and> property ''Type'' body = Some (JString ''AWS-HMAC'')
        \<and> property ''AccessKeyId'' body = Some (JString (AccessKeyId iamReq))
        \<and> property ''SecretAccessKey'' body = Some (JString (SecretAccessKey iamReq))
        \<and> property ''Token'' body = Some (JString (SessionToken iamReq))
        \<and> property ''credentials'' body = None
        \<and> property ''expires'' body = None))
    \<and> (query_format req \<noteq> Some ''iam-role-compat'' \<longrightarrow>
      (\<exists>body. snd (awsS3Credentials srv req) = Reply body
        \<and> keys body = [''credentials'', ''expires'']
        \<and> property ''credentials'' body =
            Some (JObject [(''accessKeyId'', JString (AccessKeyId iamReq)),
                           (''secretAccessKey'', JString (SecretAccessKey iamReq)),
                           (''sessionToken'', JString (SessionToken iamReq))])
        \<and> property ''Code'' body = None
        \<and> property ''Type'' body = None))"
  using assms by (auto simp add: awsS3Credentials_def Let_def)

theorem response_shapes_witness:
  "(\<exists>body. snd (awsS3Credentials grantAll (teamRequest ''read-only'' (Some ''iam-role-compat''))) =
        StatusJson 200 body
      \<and> keys body = [''Code'', ''Type'', ''LastUpdated'', ''AccessKeyId'', ''SecretAccessKey'',
                      ''Token'', ''Expiration'']
      \<and> property ''credentials'' body = None)
   \<and> (\<exists>body. snd (awsS3Credentials grantAll (teamRequest ''read-only'' None)) = Reply body
      \<and> keys body = [''credentials'', ''expires'']
      \<and> property ''Code'' body = None)"
proof -
  have ok: "\<not> startsWithSlash ''team/''"
    by (simp add: startsWithSlash_def)
  show ?thesis
    using ok
      response_shapes [of "teamRequest ''read-only'' (Some ''iam-role-compat'')" grantAll
        exampleCredentials]
      response_shapes [of "teamRequest ''read-only'' None" grantAll exampleCredentials]
    by (simp add: teamRequest_def grantAll_def) blast
qed

subsection \<open>Other values of the format\<close>








subsection \<open>Bucket names with a dot\<close>

text \<open>
  C9 does not hold of the handler: it never looks at the characters of the bucket. The
  request for the bucket \<^verbatim>\<open>my.bucket\<close> is authorized, a policy for
  \<^verbatim>\<open>arn:aws:s3:::my.bucket/data/*\<close> is submitted and the credentials are replied.
\<close>

theorem dotted_bucket_accepted:
  "awsS3Credentials grantAll dottedRequest =
     ([Authorize (authorizeParams ''read-only'' ''my.bucket'' ''data/''),
       GetFederationToken (federationTokenRequest ''read-only'' ''my.bucket'' ''data/'')],
      Reply (JObject [
        (''credentials'', JObject [
           (''accessKeyId'', JString ''ASIAEXAMPLE''),
           (''secretAccessKey'', JString ''secret''),
           (''sessionToken'', JString ''token'')]),
        (''expires'', JString ''2026-01-01T01:00:00.000Z'')]))
   \<and> statementProperty 0 ''Resource'' (policy (objectActions ''read-only'') ''my.bucket'' ''data/'') =
     Some (JArray [JString ''arn:aws:s3:::my.bucket/data/*''])"
proof -
  have ok: "\<not> startsWithSlash ''data/''"
    by (simp add: startsWithSlash_def)
  have "awsS3Credentials grantAll dottedRequest =
     ([Authorize (authorizeParams ''read-only'' ''my.bucket'' ''data/''),
       GetFederationToken (federationTokenRequest ''read-only'' ''my.bucket'' ''data/'')],
      Reply (JObject [
        (''credentials'', JObject [
           (''accessKeyId'', JString ''ASIAEXAMPLE''),
           (''secretAccessKey'', JString ''secret''),
           (''sessionToken'', JString ''token'')]),
        (''expires'', JString ''2026-01-01T01:00:00.000Z'')]))"
    using ok
    by (simp add: awsS3Credentials_def Let_def dottedRequest_def grantAll_def
        exampleCredentials_def dateJSON_def)
  moreover have "statementProperty 0 ''Resource''
      (policy (objectActions ''read-only'') ''my.bucket'' ''data/'') =
     Some (JArray [JString ''arn:aws:s3:::my.bucket/data/*''])"
    by (simp add: statementProperty_def policy_def replace_def)
  ultimately show ?thesis
    by simp
qed

subsection \<open>The resources of the policy\<close>

text \<open>
  The templates are filled in with \<^verbatim>\<open>replace\<close>, which reads \<^verbatim>\<open>$\<close> patterns in the
  text put in and replaces the first \<^verbatim>\<open>{{prefix}}\<close> it finds, also one that came in
  with the bucket. For a bucket without \<^verbatim>\<open>$\<close> and \<^verbatim>\<open>{\<close> and a prefix without
  \<^verbatim>\<open>$\<close> the resources and the condition are the plain concatenations.
\<close>

lemma GetSubstitution_plain:
  "CHR ''$'' \<notin> set r \<Longrightarrow> GetSubstitution matched preceding following r = r"
  by (induction matched preceding following r rule: GetSubstitution.induct) auto

lemma splitFirst_skip:
  assumes "p \<notin> set xs"
  shows "splitFirst (p # ps) (xs @ ys) =
    map_option (\<lambda>ba. (xs @ fst ba, snd ba)) (splitFirst (p # ps) ys)"
  using assms
proof (induction xs)
  case Nil
  show ?case by (simp add: option.map_ident)
next
  case (Cons x xs)
  then show ?case
    by (simp add: option.map_comp comp_def)
qed

lemma replace_bucket:
  assumes "CHR ''$'' \<notin> set bucket"
  shows "replace ''arn:aws:s3:::{{bucket}}/{{prefix}}*'' ''{{bucket}}'' bucket =
    ''arn:aws:s3:::'' @ bucket @ ''/{{prefix}}*''"
  using assms by (simp add: replace_def GetSubstitution_plain)

lemma replace_bucket_alone:
  assumes "CHR ''$'' \<notin> set bucket"
  shows "replace ''arn:aws:s3:::{{bucket}}'' ''{{bucket}}'' bucket = ''arn:aws:s3:::'' @ bucket"
  using assms by (simp add: replace_def GetSubstitution_plain)

lemma replace_prefix_alone:
  assumes "CHR ''$'' \<notin> set prefix"
  shows "replace ''{{prefix}}*'' ''{{prefix}}'' prefix = prefix @ ''*''"
  using assms by (simp add: replace_def GetSubstitution_plain)

lemma splitFirst_after_bucket:
  assumes "CHR ''{'' \<notin> set bucket"
  shows "splitFirst ''{{prefix}}'' (''arn:aws:s3:::'' @ bucket @ ''/{{prefix}}*'') =
    Some (''arn:aws:s3:::'' @ bucket @ ''/'', ''*'')"
proof -
  have "CHR ''{'' \<notin> set (''arn:aws:s3:::'' @ bucket @ ''/'')"
    using assms by simp
  from splitFirst_skip [OF this, of "''{prefix}}''" "''{{prefix}}*''"]
  show ?thesis by simp
qed

lemma replace_prefix:
  assumes "CHR ''{'' \<notin> set bucket" and "CHR ''$'' \<notin> set prefix"
  shows "replace (''arn:aws:s3:::'' @ bucket @ ''/{{prefix}}*'') ''{{prefix}}'' prefix =
    ''arn:aws:s3:::'' @ bucket @ ''/'' @ prefix @ ''*''"
  unfolding replace_def splitFirst_after_bucket [OF assms(1)]
  using assms(2) by (simp add: GetSubstitution_plain)

lemma policy_resources_plain:
  assumes "CHR ''$'' \<notin> set bucket" and "CHR ''{'' \<notin> set bucket" and "CHR ''$'' \<notin> set prefix"
  shows "statementProperty 0 ''Resource'' (policy acts bucket prefix) =
      Some (JArray [JString (''arn:aws:s3:::'' @ bucket @ ''/'' @ prefix @ ''*'')])"
    and "statementProperty (Suc 0) ''Resource'' (policy acts bucket prefix) =
      Some (JArray [JString (''arn:aws:s3:::'' @ bucket)])"
    and "statementProperty (Suc 0) ''Condition'' (policy acts bucket prefix) =
      Some (JObject [(''StringLike'', JObject [(''s3:prefix'', JArray [JString (prefix @ ''*'')])])])"
proof -
  show "statementProperty 0 ''Resource'' (policy acts bucket prefix) =
      Some (JArray [JString (''arn:aws:s3:::'' @ bucket @ ''/'' @ prefix @ ''*'')])"
    unfolding statementProperty_def policy_def replace_bucket [OF assms(1)]
      replace_prefix [OF assms(2,3)]
    by simp
  show "statementProperty (Suc 0) ''Resource'' (policy acts bucket prefix) =
      Some (JArray [JString (''arn:aws:s3:::'' @ bucket)])"
    unfolding statementProperty_def policy_def replace_bucket_alone [OF assms(1)]
    by simp
  show "statementProperty (Suc 0) ''Condition'' (policy acts bucket prefix) =
      Some (JObject [(''StringLike'', JObject [(''s3:prefix'', JArray [JString (prefix @ ''*'')])])])"
    unfolding statementProperty_def policy_def replace_prefix_alone [OF assms(3)]
    by simp
qed

text \<open>
  C2 does not hold of the handler for every bucket and prefix. For the bucket
  \<^verbatim>\<open>mybucket\<close> and the prefix \<^verbatim>\<open>$'\<close> the request is authorized for that prefix, and the
  policy submitted has the object resource \<^verbatim>\<open>arn:aws:s3:::mybucket/**\<close> and the list
  condition \<^verbatim>\<open>**\<close>: \<^verbatim>\<open>replace\<close> puts the text after the match, \<^verbatim>\<open>*\<close>, where the
  prefix should be.
\<close>

theorem dollar_prefix_resource:
  "fst (awsS3Credentials grantAll dollarRequest) =
     [Authorize (authorizeParams ''read-only'' ''mybucket'' [CHR ''$'', CHR 0x27]),
      GetFederationToken (federationTokenRequest ''read-only'' ''mybucket'' [CHR ''$'', CHR 0x27])]
   \<and> statementProperty 0 ''Resource''
       (policy (objectActions ''read-only'') ''mybucket'' [CHR ''$'', CHR 0x27]) =
     Some (JArray [JString ''arn:aws:s3:::mybucket/**''])
   \<and> statementProperty 1 ''Condition''
       (policy (objectActions ''read-only'') ''mybucket'' [CHR ''$'', CHR 0x27]) =
     Some (JObject [(''StringLike'', JObject [(''s3:prefix'', JArray [JString ''**''])])])"
proof -
  have "\<not> startsWithSlash [CHR ''$'', CHR 0x27]"
    by (simp add: startsWithSlash_def)
  then have "fst (awsS3Credentials grantAll dollarRequest) =
     [Authorize (authorizeParams ''read-only'' ''mybucket'' [CHR ''$'', CHR 0x27]),
      GetFederationToken (federationTokenRequest ''read-only'' ''mybucket'' [CHR ''$'', CHR 0x27])]"
    using run_exchange [of dollarRequest grantAll]
    by (simp add: dollarRequest_def grantAll_def)
  moreover have "statementProperty 0 ''Resource''
       (policy (objectActions ''read-only'') ''mybucket'' [CHR ''$'', CHR 0x27]) =
     Some (JArray [JString ''arn:aws:s3:::mybucket/**''])"
    by (simp add: statementProperty_def policy_def replace_def)
  moreover have "statementProperty 1 ''Condition''
       (policy (objectActions ''read-only'') ''mybucket'' [CHR ''$'', CHR 0x27]) =
     Some (JObject [(''StringLike'', JObject [(''s3:prefix'', JArray [JString ''**''])])])"
    by (simp add: statementProperty_def policy_def replace_def)
  ultimately show ?thesis
    by simp
qed

text \<open>
  C10 does not hold of the handler for every bucket. The empty prefix passes the check
  of the prefix, but for the bucket \<^verbatim>\<open>a$$b\<close> the policy submitted has the object
  resource \<^verbatim>\<open>arn:aws:s3:::a$b/*\<close>, the resource of another bucket: \<^verbatim>\<open>replace\<close> reads
  \<^verbatim>\<open>$$\<close> in the bucket as one dollar sign.
\<close>

theorem dollar_bucket_resource:
  "fst (awsS3Credentials grantAll dollarBucketRequest) =
     [Authorize (authorizeParams ''read-only'' ''a$$b'' []),
      GetFederationToken (federationTokenRequest ''read-only'' ''a$$b'' [])]
   \<and> statementProperty 0 ''Resource'' (policy (objectActions ''read-only'') ''a$$b'' []) =
     Some (JArray [JString ''arn:aws:s3:::a$b/*''])"
proof -
  have "\<not> startsWithSlash []"
    by (simp add: startsWithSlash_def)
  then have "fst (awsS3Credentials grantAll dollarBucketRequest) =
     [Authorize (authorizeParams ''read-only'' ''a$$b'' []),
      GetFederationToken (federationTokenRequest ''read-only'' ''a$$b'' [])]"
    using run_exchange [of dollarBucketRequest grantAll]
    by (simp add: dollarBucketRequest_def grantAll_def)
  moreover have "statementProperty 0 ''Resource'' (policy (objectActions ''read-only'') ''a$$b'' []) =
     Some (JArray [JString ''arn:aws:s3:::a$b/*''])"
    by (simp add: statementProperty_def policy_def replace_def)
  ultimately show ?thesis
    by simp
qed

end
